theory Spec2Isabelle
  imports Complex_Main
begin

section \<open>Run tracking (ersilia/core/tracking.py)\<close>

text \<open>
  The module is embedded function by function. Python exceptions are values of the type
  \<open>error\<close>, a function that can raise returns \<open>error + 'a\<close> with \<open>Inl\<close> for the
  exception. A floating-point result is a value of \<open>npfloat\<close>: a real number or one of
  the IEEE special values. The float64 arithmetic of pandas, which rounds, is not computed
  here: the results of its reductions \<open>mean\<close> and \<open>std\<close> are parameters of the model. The
  quotients of \<open>get_file_sizes\<close> are written as real quotients; their rounding is not
  modelled.
\<close>

datatype npfloat = Finite real | PosInf | NegInf | NaN

datatype error =
    KeyError
  | TypeError
  | IndexError
  | ZeroDivisionError
  | NotStartedError
  | EmptyColumnError

text \<open>
  \<open>KeyError\<close>, \<open>TypeError\<close>, \<open>IndexError\<close> and \<open>ZeroDivisionError\<close> are Python's
  built-in exceptions. \<open>NotStartedError\<close> and \<open>EmptyColumnError\<close> are the errors the
  specification names; no statement of the module raises them, they are here so that the
  specification's sentences about them can be written down.
\<close>

subsection \<open>The session log\<close>

text \<open>
  The file system as far as the module uses it: a map from paths to the contents of the
  regular files there. \<open>os.path.isfile p\<close> is \<open>fs p \<noteq> None\<close>.
\<close>

type_synonym filesystem = "string \<rightharpoonup> string"

definition PERSISTENT_FILE_PATH :: string where
  "PERSISTENT_FILE_PATH = ''current_session.txt''"

definition newline :: string where
  "newline = [CHR 0x0A]"

definition isfile :: "filesystem \<Rightarrow> string \<Rightarrow> bool" where
  "isfile fs p = (case fs p of None \<Rightarrow> False | Some _ \<Rightarrow> True)"

text \<open>\<open>open(path, "w")\<close> followed by one \<open>write\<close>: the file holds exactly the text written.\<close>

definition open_persistent_file :: "string \<Rightarrow> filesystem \<Rightarrow> filesystem" where
  "open_persistent_file model_id fs =
     fs(PERSISTENT_FILE_PATH \<mapsto> ''Session started for model: '' @ model_id @ newline)"

text \<open>\<open>open(path, "a")\<close> followed by one \<open>write\<close>, guarded by \<open>os.path.isfile\<close>.\<close>

definition write_persistent_file :: "string \<Rightarrow> filesystem \<Rightarrow> filesystem" where
  "write_persistent_file contents fs =
     (if isfile fs PERSISTENT_FILE_PATH
      then (case fs PERSISTENT_FILE_PATH of
              None \<Rightarrow> fs
            | Some old \<Rightarrow> fs(PERSISTENT_FILE_PATH \<mapsto> old @ contents @ newline))
      else fs)"

text \<open>A sequence of writes, oldest first.\<close>

fun write_all :: "string list \<Rightarrow> filesystem \<Rightarrow> filesystem" where
  "write_all [] fs = fs"
| "write_all (c # cs) fs = write_all cs (write_persistent_file c fs)"

subsection \<open>Tables\<close>

text \<open>
  A pandas \<open>DataFrame\<close> as \<open>read_csv\<close> builds it: the length of its index (the number
  of rows) and its columns in order, each a label and a \<open>Series\<close>. A series of dtype
  \<open>float64\<close> holds floating-point numbers, NaN (here \<open>None\<close>) for a missing cell; a series
  of dtype \<open>int64\<close> holds integers and has no missing cell; every other dtype (\<open>object\<close>
  for text, \<open>bool\<close>, ...) is kept by its name with the cells as text. The labels of a frame
  read from a file are distinct.
\<close>

datatype series =
    Float64 "real option list"
  | Int64 "int list"
  | Other string "string option list"

record dataframe =
  index_len :: nat
  columns :: "(string \<times> series) list"

fun dtype_str :: "series \<Rightarrow> string" where
  "dtype_str (Float64 _) = ''float64''"
| "dtype_str (Int64 _) = ''int64''"
| "dtype_str (Other d _) = d"

text \<open>\<open>columns.isin(["key", "input"])\<close>.\<close>

definition isin_key_input :: "string \<Rightarrow> bool" where
  "isin_key_input label = (label = ''key'' \<or> label = ''input'')"

text \<open>\<open>resultDf.loc[:, ~resultDf.columns.isin(["key", "input"])]\<close>.\<close>

definition non_identifier :: "dataframe \<Rightarrow> (string \<times> series) list" where
  "non_identifier df = filter (\<lambda>(label, s). \<not> isin_key_input label) (columns df)"

subsection \<open>Metadata\<close>

text \<open>
  The metadata is a dictionary read from JSON. Its values are Python objects, of which the
  strings, lists, integers and \<open>None\<close> are modelled.
\<close>

datatype pyval = PStr string | PList "pyval list" | PInt int | PNone

type_synonym metadata = "string \<rightharpoonup> pyval"

text \<open>
  The subscript \<open>v[0]\<close>: the first element of a list, the first character of a string (a
  string of length one), \<open>IndexError\<close> when either is empty, \<open>TypeError\<close> on an object
  that has no subscript.
\<close>

fun getitem0 :: "pyval \<Rightarrow> error + pyval" where
  "getitem0 (PStr []) = Inl IndexError"
| "getitem0 (PStr (c # cs)) = Inr (PStr [c])"
| "getitem0 (PList []) = Inl IndexError"
| "getitem0 (PList (x # xs)) = Inr x"
| "getitem0 (PInt _) = Inl TypeError"
| "getitem0 PNone = Inl TypeError"

subsection \<open>RunTracker.check_types\<close>

definition typeDict :: "(string \<times> string) list" where
  "typeDict = [(''float64'', ''Float''), (''int64'', ''Int'')]"

record validation =
  mismatched_types :: nat
  correct_shape :: bool

text \<open>
  The loop over \<open>dtypesLst\<close>. Each round evaluates \<open>typeDict[str(i)]\<close>, then
  \<open>metadata["Output Type"]\<close>, then its subscript \<open>[0]\<close>, and compares.
\<close>

fun count_mismatched :: "metadata \<Rightarrow> string list \<Rightarrow> nat \<Rightarrow> error + nat" where
  "count_mismatched meta [] count = Inr count"
| "count_mismatched meta (d # ds) count =
     (case map_of typeDict d of
        None \<Rightarrow> Inl KeyError
      | Some label \<Rightarrow>
          (case meta ''Output Type'' of
             None \<Rightarrow> Inl KeyError
           | Some v \<Rightarrow>
               (case getitem0 v of
                  Inl e \<Rightarrow> Inl e
                | Inr x \<Rightarrow>
                    count_mismatched meta ds (if PStr label \<noteq> x then count + 1 else count))))"

text \<open>
  The shape test. \<open>and\<close> evaluates its right operand only when the left one holds, so
  \<open>metadata["Output Shape"]\<close> is read only for one column or more.
\<close>

definition shape_check :: "metadata \<Rightarrow> nat \<Rightarrow> error + bool" where
  "shape_check meta n =
     (if n > 1 then
        (case meta ''Output Shape'' of
           None \<Rightarrow> Inl KeyError
         | Some shape \<Rightarrow> if shape \<noteq> PStr ''List'' then Inr False else Inr True)
      else if n = 1 then
        (case meta ''Output Shape'' of
           None \<Rightarrow> Inl KeyError
         | Some shape \<Rightarrow> if shape \<noteq> PStr ''Single'' then Inr False else Inr True)
      else Inr True)"

definition check_types :: "dataframe \<Rightarrow> metadata \<Rightarrow> error + validation" where
  "check_types resultDf meta =
     (let dtypesLst = map (\<lambda>(label, s). dtype_str s) (non_identifier resultDf) in
      case count_mismatched meta dtypesLst 0 of
        Inl e \<Rightarrow> Inl e
      | Inr count \<Rightarrow>
          (case shape_check meta (length dtypesLst) of
             Inl e \<Rightarrow> Inl e
           | Inr shape_ok \<Rightarrow> Inr \<lparr>mismatched_types = count, correct_shape = shape_ok\<rparr>))"

text \<open>
  The value the loop compares every label with: the first element of
  \<open>metadata["Output Type"]\<close>, when there is one.
\<close>

definition output_type_head :: "metadata \<Rightarrow> pyval option" where
  "output_type_head meta =
     (case meta ''Output Type'' of
        None \<Rightarrow> None
      | Some v \<Rightarrow> (case getitem0 v of Inl e \<Rightarrow> None | Inr x \<Rightarrow> Some x))"

text \<open>The canonical type label of a column, when \<open>typeDict\<close> has one for its dtype.\<close>

definition canonical_label :: "series \<Rightarrow> pyval option" where
  "canonical_label s = map_option PStr (map_of typeDict (dtype_str s))"

text \<open>
  The count in the words of the specification: the columns other than \<open>key\<close> and \<open>input\<close>
  whose canonical label is not the value of \<open>metadata["Output Type"]\<close>.
\<close>

definition claimed_mismatched_type_count :: "dataframe \<Rightarrow> metadata \<Rightarrow> nat" where
  "claimed_mismatched_type_count df meta =
     length (filter (\<lambda>(label, s). canonical_label s \<noteq> meta ''Output Type'')
       (non_identifier df))"

text \<open>The same count against the first element of that value.\<close>

definition head_mismatched_type_count :: "dataframe \<Rightarrow> metadata \<Rightarrow> nat" where
  "head_mismatched_type_count df meta =
     length (filter (\<lambda>(label, s). canonical_label s \<noteq> output_type_head meta)
       (non_identifier df))"

text \<open>Example tables and metadata: three float columns, one float column, no data column.\<close>

definition identifier_columns :: "(string \<times> series) list" where
  "identifier_columns =
     [(''key'', Other ''object'' [Some ''k1'', Some ''k2'']),
      (''input'', Other ''object'' [Some ''CCO'', Some ''CCN''])]"

definition three_floats :: dataframe where
  "three_floats = \<lparr>index_len = 2, columns = identifier_columns @
     [(''a'', Float64 [Some 1.5, Some 2]),
      (''b'', Float64 [Some 0, None]),
      (''c'', Float64 [Some 3, Some 4])]\<rparr>"

definition float_and_int :: dataframe where
  "float_and_int = \<lparr>index_len = 2, columns = identifier_columns @
     [(''a'', Float64 [Some 1.5, Some 2]),
      (''n'', Int64 [7, 8])]\<rparr>"

definition one_float :: dataframe where
  "one_float = \<lparr>index_len = 2, columns = identifier_columns @
     [(''a'', Float64 [Some 1.5, Some 2])]\<rparr>"

definition only_identifiers :: dataframe where
  "only_identifiers = \<lparr>index_len = 2, columns = identifier_columns\<rparr>"

definition meta_string_type :: metadata where
  "meta_string_type = [''Output Type'' \<mapsto> PStr ''Float'', ''Output Shape'' \<mapsto> PStr ''List'']"

definition meta_list_type :: metadata where
  "meta_list_type =
     [''Output Type'' \<mapsto> PList [PStr ''Float''], ''Output Shape'' \<mapsto> PStr ''List'']"

definition meta_single :: metadata where
  "meta_single =
     [''Output Type'' \<mapsto> PList [PStr ''Float''], ''Output Shape'' \<mapsto> PStr ''Single'']"

subsection \<open>RunTracker.stats\<close>

text \<open>
  The pandas reductions the function calls, with their default arguments: missing cells
  are skipped (\<open>skipna=True\<close>, \<open>dropna=True\<close>), a reduction over no value is NaN, and
  \<open>std\<close> has \<open>ddof=1\<close>.

  \<open>mean\<close> and \<open>std\<close> compute in IEEE float64: an \<open>int64\<close> column is cast to float64
  first, every operation rounds, and the order of the summation is internal to the library.
  That arithmetic is not computed here. The float64 result of each of the two reductions
  on the cells present is a parameter of the model: \<open>mean_f64 xs\<close> for the mean of the
  cells \<open>xs\<close>, \<open>std_f64 ddof xs\<close> for their standard deviation with the denominator
  \<open>count - ddof\<close>. \<open>min\<close>, \<open>max\<close> and \<open>mode\<close> select among the cells and are exact.
\<close>

record float_reductions =
  mean_f64 :: "real list \<Rightarrow> npfloat"
  std_f64 :: "nat \<Rightarrow> real list \<Rightarrow> npfloat"

fun dropna :: "'a option list \<Rightarrow> 'a list" where
  "dropna [] = []"
| "dropna (None # vs) = dropna vs"
| "dropna (Some v # vs) = v # dropna vs"

text \<open>\<open>nanmean\<close>: NaN when no cell is present.\<close>

definition pd_mean :: "float_reductions \<Rightarrow> real option list \<Rightarrow> npfloat" where
  "pd_mean red vs =
     (let xs = dropna vs in
      if xs = [] then NaN else mean_f64 red xs)"

definition pd_min :: "real option list \<Rightarrow> real option" where
  "pd_min vs = (case dropna vs of [] \<Rightarrow> None | x # xs \<Rightarrow> Some (fold min xs x))"

definition pd_max :: "real option list \<Rightarrow> real option" where
  "pd_max vs = (case dropna vs of [] \<Rightarrow> None | x # xs \<Rightarrow> Some (fold max xs x))"

text \<open>
  \<open>nanstd\<close>: with \<open>count\<close> cells present, NaN when \<open>count \<le> ddof\<close>.
\<close>

definition pd_std :: "float_reductions \<Rightarrow> nat \<Rightarrow> real option list \<Rightarrow> npfloat" where
  "pd_std red ddof vs =
     (let xs = dropna vs; count = length xs in
      if count \<le> ddof then NaN else std_f64 red ddof xs)"

text \<open>
  \<open>Series.mode()\<close>: the values that occur most often among the cells present, each once,
  in increasing order; no value when no cell is present.
\<close>

definition pd_mode :: "real option list \<Rightarrow> real list" where
  "pd_mode vs =
     (let xs = dropna vs in
      if xs = [] then []
      else
        let most = Max (set (map (count_list xs) xs))
        in sort (remdups (filter (\<lambda>x. count_list xs x = most) xs)))"

record column_stats =
  stat_mean :: npfloat
  stat_mode :: "real option"
  stat_min :: "real option"
  stat_max :: "real option"
  stat_std :: npfloat

text \<open>
  The body of the loop over the columns, for a numeric column. In \<open>stat_min\<close> and
  \<open>stat_max\<close> the value \<open>None\<close> is NaN; in \<open>stat_mode\<close> it is Python's \<open>None\<close>, stored
  when \<open>mode()\<close> does not have exactly one element.
\<close>

definition column_statistics :: "float_reductions \<Rightarrow> real option list \<Rightarrow> column_stats" where
  "column_statistics red vs =
     \<lparr>stat_mean = pd_mean red vs,
      stat_mode = (if length (pd_mode vs) = 1 then Some (pd_mode vs ! 0) else None),
      stat_min = pd_min vs,
      stat_max = pd_max vs,
      stat_std = pd_std red 1 vs\<rparr>"

text \<open>
  The cells of a numeric series as numbers, an integer by its value; a series of another
  dtype has none.
\<close>

fun numeric_values :: "series \<Rightarrow> real option list option" where
  "numeric_values (Float64 vs) = Some vs"
| "numeric_values (Int64 ns) = Some (map (\<lambda>n. Some (real_of_int n)) ns)"
| "numeric_values (Other d cells) = None"

text \<open>
  What pandas computes on a series that is not numeric depends on its dtype, its cells and
  the version of the library; it is the parameter \<open>other\<close> of the model, from the dtype and
  the cells to the statistics or an exception.
\<close>

type_synonym other_statistics = "string \<Rightarrow> string option list \<Rightarrow> error + column_stats"

fun series_statistics ::
  "float_reductions \<Rightarrow> other_statistics \<Rightarrow> series \<Rightarrow> error + column_stats" where
  "series_statistics red other (Float64 vs) = Inr (column_statistics red vs)"
| "series_statistics red other (Int64 ns) =
     Inr (column_statistics red (map (\<lambda>n. Some (real_of_int n)) ns))"
| "series_statistics red other (Other d cells) = other d cells"

text \<open>
  \<open>DataFrame.drop(labels, axis=1)\<close>: \<open>KeyError\<close> when a label is not a column of the
  frame, else the frame without the columns of these labels.
\<close>

definition drop_columns :: "string list \<Rightarrow> dataframe \<Rightarrow> error + dataframe" where
  "drop_columns labels df =
     (if list_all (\<lambda>l. l \<in> set (map fst (columns df))) labels
      then Inr (df\<lparr>columns := filter (\<lambda>(label, s). label \<notin> set labels) (columns df)\<rparr>)
      else Inl KeyError)"

text \<open>The loop over the columns; the dictionary \<open>stats\<close> is built in their order.\<close>

fun stats_loop ::
  "float_reductions \<Rightarrow> other_statistics \<Rightarrow> (string \<times> series) list \<Rightarrow>
   error + (string \<times> column_stats) list" where
  "stats_loop red other [] = Inr []"
| "stats_loop red other ((label, s) # cols) =
     (case series_statistics red other s of
        Inl e \<Rightarrow> Inl e
      | Inr column_stats \<Rightarrow>
          (case stats_loop red other cols of
             Inl e \<Rightarrow> Inl e
           | Inr rest \<Rightarrow> Inr ((label, column_stats) # rest)))"

text \<open>\<open>stats\<close>, from the frame that \<open>read_csv\<close> returned.\<close>

definition stats ::
  "float_reductions \<Rightarrow> other_statistics \<Rightarrow> dataframe \<Rightarrow>
   error + (string \<times> column_stats) list" where
  "stats red other dat =
     (case drop_columns [''key'', ''input''] dat of
        Inl e \<Rightarrow> Inl e
      | Inr dat' \<Rightarrow> stats_loop red other (columns dat'))"

text \<open>The labels of a frame, and the frames whose data columns are all numeric.\<close>

definition labels :: "dataframe \<Rightarrow> string list" where
  "labels df = map fst (columns df)"

definition numeric_frame :: "dataframe \<Rightarrow> bool" where
  "numeric_frame df = list_all (\<lambda>(label, s). numeric_values s \<noteq> None) (non_identifier df)"

text \<open>
  The mode in the words of the specification: a value is the mode when it occurs strictly
  more often than every other value; the mode is ambiguous when two different values both
  occur most often.
\<close>

definition strictly_most_frequent :: "real list \<Rightarrow> real \<Rightarrow> bool" where
  "strictly_most_frequent xs v \<longleftrightarrow>
     v \<in> set xs \<and> (\<forall>w \<in> set xs. w \<noteq> v \<longrightarrow> count_list xs w < count_list xs v)"

definition tied_most_frequent :: "real list \<Rightarrow> bool" where
  "tied_most_frequent xs \<longleftrightarrow>
     (\<exists>v \<in> set xs. \<exists>w \<in> set xs. v \<noteq> w \<and> count_list xs v = count_list xs w \<and>
        (\<forall>u \<in> set xs. count_list xs u \<le> count_list xs v))"

text \<open>
  Example frames. None of them has a data column that is not numeric, so the parameter
  \<open>other\<close> is never called on them; \<open>other_raises\<close> stands in for it. On a frame
  whose data columns have no cell present, and on a frame without \<open>key\<close>, no float64
  reduction is evaluated either; \<open>unused_reductions\<close> stands in for them there.
\<close>

definition other_raises :: other_statistics where
  "other_raises d cells = Inl TypeError"

definition unused_reductions :: float_reductions where
  "unused_reductions = \<lparr>mean_f64 = (\<lambda>xs. NaN), std_f64 = (\<lambda>ddof xs. NaN)\<rparr>"

definition mode_frame :: dataframe where
  "mode_frame = \<lparr>index_len = 4, columns =
     [(''key'', Other ''object'' [Some ''k1'', Some ''k2'', Some ''k3'', Some ''k4'']),
      (''input'', Other ''object'' [Some ''C'', Some ''CC'', Some ''CCC'', Some ''CCO'']),
      (''tie'', Int64 [1, 1, 2, 2]),
      (''one'', Float64 [Some 1, Some 1, Some 2, None])]\<rparr>"

definition all_nan_frame :: dataframe where
  "all_nan_frame = \<lparr>index_len = 2, columns = identifier_columns @
     [(''a'', Float64 [None, None])]\<rparr>"

definition no_key_frame :: dataframe where
  "no_key_frame = \<lparr>index_len = 2, columns =
     [(''input'', Other ''object'' [Some ''CCO'', Some ''CCN'']),
      (''a'', Float64 [Some 1.5, Some 2])]\<rparr>"

definition nan_stats :: column_stats where
  "nan_stats = \<lparr>stat_mean = NaN, stat_mode = None, stat_min = None, stat_max = None,
     stat_std = NaN\<rparr>"

subsection \<open>RunTracker.get_file_sizes\<close>

text \<open>
  \<open>memory_usage(deep=True).sum()\<close> is a numpy integer and its quotient by 1024 a numpy
  \<open>float64\<close>. Dividing a numpy \<open>float64\<close> by zero follows IEEE 754 and raises nothing (numpy
  emits a \<open>RuntimeWarning\<close>): a positive number over zero is infinity, zero over zero is
  NaN.
\<close>

definition np_true_divide :: "real \<Rightarrow> nat \<Rightarrow> npfloat" where
  "np_true_divide x n =
     (if n = 0 then (if x > 0 then PosInf else if x < 0 then NegInf else NaN)
      else Finite (x / real n))"

record file_sizes =
  input_size :: real
  output_size :: real
  avg_input_size :: npfloat
  avg_output_size :: npfloat

text \<open>
  The bytes pandas accounts to a frame are the parameter \<open>memory_usage\<close>; \<open>len(df)\<close> is the
  length of the index.
\<close>

definition get_file_sizes ::
  "(dataframe \<Rightarrow> nat) \<Rightarrow> dataframe \<Rightarrow> dataframe \<Rightarrow> error + file_sizes" where
  "get_file_sizes memory_usage input_df output_df =
     (let input_size = real (memory_usage input_df) / 1024;
          output_size = real (memory_usage output_df) / 1024;
          input_avg_row_size = np_true_divide input_size (index_len input_df);
          output_avg_row_size = np_true_divide output_size (index_len output_df)
      in Inr \<lparr>input_size = input_size,
              output_size = output_size,
              avg_input_size = input_avg_row_size,
              avg_output_size = output_avg_row_size\<rparr>)"

subsection \<open>The profiling window\<close>

text \<open>
  \<open>tracemalloc\<close> is state of the process: whether it traces, and the current and the peak
  size of the traced blocks. \<open>get_traced_memory\<close> is \<open>(0, 0)\<close> while it does not trace;
  \<open>start\<close> does nothing when it already traces; \<open>stop\<close> forgets the traces.
\<close>

record tracemalloc =
  tracing :: bool
  traced_current :: nat
  traced_peak :: nat

definition tracemalloc_start :: "tracemalloc \<Rightarrow> tracemalloc" where
  "tracemalloc_start tm =
     (if tracing tm then tm
      else \<lparr>tracing = True, traced_current = 0, traced_peak = 0\<rparr>)"

definition get_traced_memory :: "tracemalloc \<Rightarrow> nat \<times> nat" where
  "get_traced_memory tm = (if tracing tm then (traced_current tm, traced_peak tm) else (0, 0))"

definition tracemalloc_stop :: "tracemalloc \<Rightarrow> tracemalloc" where
  "tracemalloc_stop tm = \<lparr>tracing = False, traced_current = 0, traced_peak = 0\<rparr>"

text \<open>
  The tracker: \<open>time_start\<close> is \<open>None\<close> until \<open>start_tracking\<close> stores the clock (a time
  is a number of microseconds), \<open>memory_usage_start\<close> is 0 until then.
\<close>

record run_tracker =
  time_start :: "int option"
  memory_usage_start :: int

definition RunTracker_init :: run_tracker where
  "RunTracker_init = \<lparr>time_start = None, memory_usage_start = 0\<rparr>"

definition start_tracking ::
  "int \<Rightarrow> run_tracker \<Rightarrow> tracemalloc \<Rightarrow> run_tracker \<times> tracemalloc" where
  "start_tracking now self tm =
     (let tm' = tracemalloc_start tm in
      (self\<lparr>time_start := Some now,
            memory_usage_start := int (fst (get_traced_memory tm'))\<rparr>, tm'))"

text \<open>
  The elapsed time, \<open>datetime.now() - self.time_start\<close> in \<open>track\<close>: subtracting \<open>None\<close>
  from a \<open>datetime\<close> is a \<open>TypeError\<close>.
\<close>

definition time_taken :: "int \<Rightarrow> run_tracker \<Rightarrow> error + int" where
  "time_taken now self =
     (case time_start self of None \<Rightarrow> Inl TypeError | Some t \<Rightarrow> Inr (now - t))"

text \<open>\<open>get_peak_memory\<close> has no statement that raises.\<close>

definition get_peak_memory :: "run_tracker \<Rightarrow> tracemalloc \<Rightarrow> error + (int \<times> tracemalloc)" where
  "get_peak_memory self tm =
     (let peak_memory = int (snd (get_traced_memory tm)) - memory_usage_start self
      in Inr (peak_memory, tracemalloc_stop tm))"

text \<open>
  Examples: a frame read from a file that has a header and no row, and \<open>tracemalloc\<close>
  before anything started it.
\<close>

definition no_rows :: dataframe where
  "no_rows = \<lparr>index_len = 0, columns =
     [(''key'', Other ''object'' []), (''input'', Other ''object'' []),
      (''a'', Other ''object'' [])]\<rparr>"

definition tracemalloc_idle :: tracemalloc where
  "tracemalloc_idle = \<lparr>tracing = False, traced_current = 0, traced_peak = 0\<rparr>"

section \<open>Properties of the session log\<close>

lemma write_persistent_file_present:
  "fs PERSISTENT_FILE_PATH = Some old \<Longrightarrow>
   write_persistent_file c fs PERSISTENT_FILE_PATH = Some (old @ c @ newline)"
  by (simp add: write_persistent_file_def isfile_def)

lemma write_all_present:
  "fs PERSISTENT_FILE_PATH = Some old \<Longrightarrow>
   write_all cs fs PERSISTENT_FILE_PATH = Some (old @ concat (map (\<lambda>c. c @ newline) cs))"
proof (induction cs arbitrary: fs old)
  case Nil
  then show ?case by simp
next
  case (Cons c cs)
  have "write_persistent_file c fs PERSISTENT_FILE_PATH = Some (old @ c @ newline)"
    using Cons.prems by (rule write_persistent_file_present)
  then have "write_all cs (write_persistent_file c fs) PERSISTENT_FILE_PATH
      = Some ((old @ c @ newline) @ concat (map (\<lambda>c. c @ newline) cs))"
    by (rule Cons.IH)
  then show ?case by simp
qed

text \<open>
  C8. While no session file exists a write changes nothing: the file system after the write
  is the file system before it, so no file is created and nothing is written (and the
  function has no failing branch). After \<open>open_persistent_file\<close> the file holds the header
  line followed by one line \<open>content\<newline>\<close> for every write, in the order written.
\<close>

theorem session_log_writes:
  "(fs PERSISTENT_FILE_PATH = None \<longrightarrow> write_persistent_file c fs = fs) \<and>
   write_all cs (open_persistent_file model_id fs0) PERSISTENT_FILE_PATH
     = Some (''Session started for model: '' @ model_id @ newline
             @ concat (map (\<lambda>c. c @ newline) cs))"
proof
  show "fs PERSISTENT_FILE_PATH = None \<longrightarrow> write_persistent_file c fs = fs"
    by (simp add: write_persistent_file_def isfile_def)
next
  have "open_persistent_file model_id fs0 PERSISTENT_FILE_PATH
      = Some (''Session started for model: '' @ model_id @ newline)"
    by (simp add: open_persistent_file_def)
  then have "write_all cs (open_persistent_file model_id fs0) PERSISTENT_FILE_PATH
      = Some ((''Session started for model: '' @ model_id @ newline)
              @ concat (map (\<lambda>c. c @ newline) cs))"
    by (rule write_all_present)
  then show "write_all cs (open_persistent_file model_id fs0) PERSISTENT_FILE_PATH
     = Some (''Session started for model: '' @ model_id @ newline
             @ concat (map (\<lambda>c. c @ newline) cs))"
    by simp
qed

theorem session_log_writes_witness:
  "(Map.empty :: filesystem) PERSISTENT_FILE_PATH = None \<and>
   write_persistent_file ''lost'' Map.empty = Map.empty \<and>
   write_all [''first'', ''second''] (open_persistent_file ''eos1'' Map.empty)
     PERSISTENT_FILE_PATH
     = Some (''Session started for model: eos1'' @ newline
             @ ''first'' @ newline @ ''second'' @ newline)"
  using session_log_writes [of Map.empty "''lost''" "[''first'', ''second'']" "''eos1''" Map.empty]
  by simp

section \<open>Properties of check_types\<close>

lemmas example_defs =
  three_floats_def float_and_int_def one_float_def only_identifiers_def
  identifier_columns_def meta_string_type_def meta_list_type_def meta_single_def

lemmas check_types_defs =
  check_types_def non_identifier_def isin_key_input_def typeDict_def shape_check_def
  output_type_head_def canonical_label_def

lemma count_mismatched_Inr:
  "count_mismatched meta ds c = Inr n \<Longrightarrow>
   n = c + length (filter (\<lambda>d. map_option PStr (map_of typeDict d) \<noteq> output_type_head meta) ds)"
proof (induction ds arbitrary: c)
  case Nil
  then show ?case by simp
next
  case (Cons d ds)
  from Cons.prems obtain label v x where
    l: "map_of typeDict d = Some label" and v: "meta ''Output Type'' = Some v"
    and x: "getitem0 v = Inr x"
    and rest: "count_mismatched meta ds (if PStr label \<noteq> x then c + 1 else c) = Inr n"
    by (auto split: option.splits sum.splits)
  have h: "output_type_head meta = Some x"
    by (simp add: output_type_head_def v x)
  from Cons.IH [OF rest] show ?case
    by (simp add: l h)
qed

lemma count_mismatched_returns:
  "(\<forall>d \<in> set ds. map_of typeDict d \<noteq> None) \<Longrightarrow> output_type_head meta = Some x \<Longrightarrow>
   \<exists>n. count_mismatched meta ds c = Inr n"
proof (induction ds arbitrary: c)
  case Nil
  then show ?case by simp
next
  case (Cons d ds)
  from Cons.prems(1) obtain label where l: "map_of typeDict d = Some label" by auto
  from Cons.prems(2) obtain v where v: "meta ''Output Type'' = Some v" and x: "getitem0 v = Inr x"
    by (auto simp: output_type_head_def split: option.splits sum.splits)
  from Cons.IH [of "if PStr label \<noteq> x then c + 1 else c"] Cons.prems
  show ?case by (simp add: l v x)
qed

text \<open>
  The validator returns a result for every table whose data columns are all of dtype
  \<open>float64\<close> or \<open>int64\<close>, when the metadata has a first element of \<open>Output Type\<close> and
  an \<open>Output Shape\<close>.
\<close>

lemma check_types_returns:
  assumes "\<forall>(label, s) \<in> set (non_identifier df). canonical_label s \<noteq> None"
    and "output_type_head meta = Some x"
    and "meta ''Output Shape'' = Some shape"
  shows "\<exists>r. check_types df meta = Inr r"
proof -
  let ?ds = "map (\<lambda>(label, s). dtype_str s) (non_identifier df)"
  from assms(1) have "\<forall>d \<in> set ?ds. map_of typeDict d \<noteq> None"
    by (auto simp: canonical_label_def)
  from count_mismatched_returns [OF this assms(2)]
  obtain n where n: "count_mismatched meta ?ds 0 = Inr n" by blast
  have "\<exists>b. shape_check meta (length ?ds) = Inr b"
    by (auto simp: shape_check_def assms(3))
  then obtain b where "shape_check meta (length ?ds) = Inr b" by blast
  with n show ?thesis by (simp add: check_types_def)
qed


text \<open>
  C1, as amended. The specification compares the canonical label of a column with the value
  of \<open>metadata["Output Type"]\<close>; the code compares it with the first element of that value
  (\<open>metadata["Output Type"][0]\<close>: Ersilia's metadata holds a list there). Whenever the
  validator returns a result, its \<open>mismatched_types\<close> is the number of columns other than
  \<open>key\<close> and \<open>input\<close> whose canonical label (\<open>Float\<close> for \<open>float64\<close>, \<open>Int\<close> for
  \<open>int64\<close>) is not that first element.
\<close>

theorem check_types_mismatched_count:
  assumes "check_types df meta = Inr r"
  shows "mismatched_types r = head_mismatched_type_count df meta"
proof -
  let ?ds = "map (\<lambda>(label, s). dtype_str s) (non_identifier df)"
  from assms obtain n where n: "count_mismatched meta ?ds 0 = Inr n"
    and r: "mismatched_types r = n"
    by (auto simp: check_types_def Let_def split: sum.splits)
  from count_mismatched_Inr [OF n]
  have "n = length (filter (\<lambda>d. map_option PStr (map_of typeDict d) \<noteq> output_type_head meta) ?ds)"
    by simp
  also have "\<dots> = head_mismatched_type_count df meta"
    by (simp add: head_mismatched_type_count_def canonical_label_def filter_map o_def
        case_prod_unfold)
  finally show ?thesis using r by simp
qed

theorem check_types_mismatched_count_witness:
  "check_types float_and_int meta_list_type = Inr \<lparr>mismatched_types = 1, correct_shape = True\<rparr> \<and>
   mismatched_types \<lparr>mismatched_types = 1, correct_shape = True\<rparr>
     = head_mismatched_type_count float_and_int meta_list_type \<and>
   head_mismatched_type_count float_and_int meta_list_type = 1"
proof -
  have h: "check_types float_and_int meta_list_type
      = Inr \<lparr>mismatched_types = 1, correct_shape = True\<rparr>"
    by (simp add: check_types_defs example_defs)
  show ?thesis
    using h check_types_mismatched_count [OF h] by simp
qed

text \<open>
  The claim as the specification states it fails on the specification's own example: three
  float columns and \<open>Output Type: "Float"\<close>. No label differs from the declared value,
  yet the code counts three mismatches, since \<open>"Float"[0]\<close> is \<open>"F"\<close>.
\<close>

theorem check_types_string_type_counterexample:
  "check_types three_floats meta_string_type
     = Inr \<lparr>mismatched_types = 3, correct_shape = True\<rparr> \<and>
   claimed_mismatched_type_count three_floats meta_string_type = 0"
  by (simp add: check_types_defs claimed_mismatched_type_count_def example_defs)



text \<open>
  C9. For a table with no column other than \<open>key\<close> and \<open>input\<close> the validator returns
  \<open>correct_shape = True\<close> (and no mismatch) whatever the metadata is: neither test of the
  shape applies, and the metadata is never read.
\<close>

theorem check_types_no_data_columns:
  assumes "non_identifier df = []"
  shows "check_types df meta = Inr \<lparr>mismatched_types = 0, correct_shape = True\<rparr>"
  using assms by (simp add: check_types_def shape_check_def)

theorem check_types_no_data_columns_witness:
  "non_identifier only_identifiers = [] \<and>
   check_types only_identifiers Map.empty = Inr \<lparr>mismatched_types = 0, correct_shape = True\<rparr> \<and>
   check_types only_identifiers meta_single = Inr \<lparr>mismatched_types = 0, correct_shape = True\<rparr>"
proof -
  have h: "non_identifier only_identifiers = []"
    by (simp add: check_types_defs example_defs)
  show ?thesis
    using h check_types_no_data_columns [OF h, of Map.empty]
      check_types_no_data_columns [OF h, of meta_single]
    by simp
qed

section \<open>Properties of stats\<close>

lemmas stats_example_defs =
  mode_frame_def all_nan_frame_def no_key_frame_def identifier_columns_def
  nan_stats_def

lemmas stats_defs =
  stats_def drop_columns_def labels_def non_identifier_def isin_key_input_def

lemma drop_columns_key_input:
  "drop_columns [''key'', ''input''] df =
     (if ''key'' \<in> set (labels df) \<and> ''input'' \<in> set (labels df)
      then Inr (df\<lparr>columns := non_identifier df\<rparr>) else Inl KeyError)"
proof -
  have "(\<lambda>(label, s). label \<notin> set [''key'', ''input''])
      = (\<lambda>(label, s::series). \<not> isin_key_input label)"
    by (auto simp: isin_key_input_def fun_eq_iff)
  then show ?thesis
    by (simp add: drop_columns_def labels_def non_identifier_def)
qed

lemma stats_eq:
  "stats red other df =
     (if ''key'' \<in> set (labels df) \<and> ''input'' \<in> set (labels df)
      then stats_loop red other (non_identifier df) else Inl KeyError)"
  by (simp add: stats_def drop_columns_key_input)

lemma series_statistics_numeric:
  "numeric_values s = Some vs \<Longrightarrow> series_statistics red other s = Inr (column_statistics red vs)"
  by (cases s) auto

lemma stats_loop_labels:
  "stats_loop red other cols = Inr st \<Longrightarrow> map fst st = map fst cols"
proof (induction cols arbitrary: st)
  case Nil
  then show ?case by simp
next
  case (Cons c cols)
  obtain label s where c: "c = (label, s)" by (cases c)
  from Cons.prems c obtain cs rest where
    "stats_loop red other cols = Inr rest" and "st = (label, cs) # rest"
    by (auto split: sum.splits)
  with Cons.IH [of rest] c show ?case by simp
qed

lemma stats_loop_member:
  "stats_loop red other cols = Inr st \<Longrightarrow> (label, s) \<in> set cols \<Longrightarrow>
   \<exists>cs. (label, cs) \<in> set st \<and> series_statistics red other s = Inr cs"
proof (induction cols arbitrary: st)
  case Nil
  then show ?case by simp
next
  case (Cons c cols)
  obtain l' s' where c: "c = (l', s')" by (cases c)
  from Cons.prems(1) c obtain cs rest where
    cs: "series_statistics red other s' = Inr cs" and
    rest: "stats_loop red other cols = Inr rest" and st: "st = (l', cs) # rest"
    by (auto split: sum.splits)
  show ?case
  proof (cases "(label, s) = c")
    case True
    with c cs st show ?thesis by auto
  next
    case False
    with Cons.prems(2) have "(label, s) \<in> set cols" by simp
    from Cons.IH [OF rest this] st show ?thesis by auto
  qed
qed

lemma stats_loop_returns:
  "list_all (\<lambda>(label, s). numeric_values s \<noteq> None) cols \<Longrightarrow>
   \<exists>st. stats_loop red other cols = Inr st"
proof (induction cols)
  case Nil
  then show ?case by simp
next
  case (Cons c cols)
  obtain label s where c: "c = (label, s)" by (cases c)
  from Cons.prems c obtain vs where "numeric_values s = Some vs" by auto
  then have "series_statistics red other s = Inr (column_statistics red vs)"
    by (rule series_statistics_numeric)
  moreover from Cons obtain rest where "stats_loop red other cols = Inr rest" by auto
  ultimately show ?case using c by simp
qed

text \<open>
  The summarizer returns for every frame that has the columns \<open>key\<close> and \<open>input\<close> and
  whose other columns are numeric.
\<close>

lemma stats_returns:
  assumes "''key'' \<in> set (labels df)" and "''input'' \<in> set (labels df)" and "numeric_frame df"
  shows "\<exists>st. stats red other df = Inr st"
  using assms stats_loop_returns [of "non_identifier df" red other]
  by (simp add: stats_eq numeric_frame_def)

text \<open>
  In the dictionary it returns, the entry of a numeric column is the statistics of its
  cells.
\<close>

lemma stats_numeric_lookup:
  assumes "stats red other df = Inr st" and "distinct (labels df)"
    and "(label, s) \<in> set (columns df)" and "\<not> isin_key_input label"
    and "numeric_values s = Some vs"
  shows "map_of st label = Some (column_statistics red vs)"
proof -
  from assms(1) have loop: "stats_loop red other (non_identifier df) = Inr st"
    by (simp add: stats_eq split: if_splits)
  from assms(3,4) have "(label, s) \<in> set (non_identifier df)"
    by (simp add: non_identifier_def)
  from stats_loop_member [OF loop this] series_statistics_numeric [OF assms(5), of red other]
  have m: "(label, column_statistics red vs) \<in> set st" by auto
  have "distinct (map fst (non_identifier df))"
    using assms(2) by (simp add: non_identifier_def labels_def distinct_map_filter)
  with stats_loop_labels [OF loop] have "distinct (map fst st)" by simp
  with m show ?thesis by simp
qed

subsection \<open>The mode\<close>

lemma most_ge:
  "u \<in> set xs \<Longrightarrow> count_list xs u \<le> Max (set (map (count_list xs) xs))"
  by (rule Max_ge) auto

lemma most_attained:
  assumes "xs \<noteq> []"
  shows "\<exists>u \<in> set xs. count_list xs u = Max (set (map (count_list xs) xs))"
proof -
  from assms have "Max (set (map (count_list xs) xs)) \<in> set (map (count_list xs) xs)"
    by (intro Max_in) auto
  then show ?thesis by auto
qed

text \<open>\<open>mode()\<close> holds, each once, the values no other value occurs more often than.\<close>

lemma set_pd_mode:
  "set (pd_mode vs) =
     {x \<in> set (dropna vs).
        \<forall>u \<in> set (dropna vs). count_list (dropna vs) u \<le> count_list (dropna vs) x}"
proof (cases "dropna vs = []")
  case True
  then show ?thesis by (simp add: pd_mode_def)
next
  case False
  let ?xs = "dropna vs"
  let ?most = "Max (set (map (count_list ?xs) ?xs))"
  have "\<And>x. x \<in> set ?xs \<Longrightarrow>
      (count_list ?xs x = ?most) = (\<forall>u \<in> set ?xs. count_list ?xs u \<le> count_list ?xs x)"
  proof
    fix x assume "x \<in> set ?xs" and "count_list ?xs x = ?most"
    then show "\<forall>u \<in> set ?xs. count_list ?xs u \<le> count_list ?xs x"
      using most_ge [of _ ?xs] by simp
  next
    fix x assume x: "x \<in> set ?xs"
      and a: "\<forall>u \<in> set ?xs. count_list ?xs u \<le> count_list ?xs x"
    from most_attained [OF False] obtain u where "u \<in> set ?xs" and "count_list ?xs u = ?most"
      by blast
    with a have "?most \<le> count_list ?xs x" by auto
    with most_ge [OF x] show "count_list ?xs x = ?most" by simp
  qed
  with False show ?thesis by (auto simp: pd_mode_def Let_def)
qed

lemma distinct_pd_mode: "distinct (pd_mode vs)"
  by (simp add: pd_mode_def Let_def)

lemma mode_unique:
  assumes "strictly_most_frequent (dropna vs) v"
  shows "stat_mode (column_statistics red vs) = Some v"
proof -
  let ?xs = "dropna vs"
  from assms have v: "v \<in> set ?xs"
    and less: "\<And>w. w \<in> set ?xs \<Longrightarrow> w \<noteq> v \<Longrightarrow> count_list ?xs w < count_list ?xs v"
    by (auto simp: strictly_most_frequent_def)
  have "set (pd_mode vs) = {v}"
  proof (rule set_eqI)
    fix x
    show "x \<in> set (pd_mode vs) \<longleftrightarrow> x \<in> {v}"
    proof
      assume "x \<in> set (pd_mode vs)"
      then have x: "x \<in> set ?xs" and "count_list ?xs v \<le> count_list ?xs x"
        using v by (auto simp: set_pd_mode)
      with less [of x] show "x \<in> {v}" by fastforce
    next
      assume "x \<in> {v}"
      then have "x = v" by simp
      moreover have "\<forall>u \<in> set ?xs. count_list ?xs u \<le> count_list ?xs v"
        using less by (metis less_imp_le order_refl)
      ultimately show "x \<in> set (pd_mode vs)" using v by (simp add: set_pd_mode)
    qed
  qed
  moreover from this distinct_pd_mode [of vs] have "length (pd_mode vs) = 1"
    by (metis distinct_card card_1_singleton_iff One_nat_def is_singletonI is_singleton_altdef)
  ultimately have "pd_mode vs = [v]"
    by (cases "pd_mode vs") auto
  then show ?thesis by (simp add: column_statistics_def)
qed

lemma mode_tied:
  assumes "tied_most_frequent (dropna vs)"
  shows "stat_mode (column_statistics red vs) = None"
proof -
  let ?xs = "dropna vs"
  from assms obtain v w where v: "v \<in> set ?xs" and w: "w \<in> set ?xs" and ne: "v \<noteq> w"
    and eq: "count_list ?xs v = count_list ?xs w"
    and top: "\<forall>u \<in> set ?xs. count_list ?xs u \<le> count_list ?xs v"
    by (auto simp: tied_most_frequent_def)
  have "v \<in> set (pd_mode vs)" using v top by (simp add: set_pd_mode)
  moreover have "w \<in> set (pd_mode vs)" using w top eq by (simp add: set_pd_mode)
  ultimately have "length (pd_mode vs) \<noteq> 1"
    using ne by (cases "pd_mode vs") auto
  then show ?thesis by (simp add: column_statistics_def)
qed

text \<open>
  C4. In the statistics the summarizer returns, whatever the float64 reductions compute,
  the \<open>mode\<close> of a numeric data column is
  the value that occurs strictly more often than every other value among its cells, when
  there is such a value; it is null (\<open>None\<close>) when two different values both occur most
  often. The cells \<open>1, 1, 2\<close> have mode 1 and the cells \<open>1, 1, 2, 2\<close> have none.
\<close>

theorem stats_mode:
  assumes "stats red other df = Inr st" and "distinct (labels df)"
    and "(label, s) \<in> set (columns df)" and "\<not> isin_key_input label"
    and "numeric_values s = Some vs"
  shows "(strictly_most_frequent (dropna vs) v \<longrightarrow>
           map_option stat_mode (map_of st label) = Some (Some v)) \<and>
         (tied_most_frequent (dropna vs) \<longrightarrow>
           map_option stat_mode (map_of st label) = Some None)"
proof -
  have "map_of st label = Some (column_statistics red vs)"
    using assms by (rule stats_numeric_lookup)
  then show ?thesis
    by (simp add: mode_unique mode_tied)
qed

theorem stats_mode_witness:
  "\<forall>red.
     stats red other_raises mode_frame
       = Inr [(''tie'', column_statistics red [Some 1, Some 1, Some 2, Some 2]),
              (''one'', column_statistics red [Some 1, Some 1, Some 2, None])] \<and>
     strictly_most_frequent [1, 1, 2] 1 \<and>
     tied_most_frequent [1, 1, 2, 2] \<and>
     map_option stat_mode
       (map_of [(''tie'', column_statistics red [Some 1, Some 1, Some 2, Some 2]),
                (''one'', column_statistics red [Some 1, Some 1, Some 2, None])] ''one'')
       = Some (Some 1) \<and>
     map_option stat_mode
       (map_of [(''tie'', column_statistics red [Some 1, Some 1, Some 2, Some 2]),
                (''one'', column_statistics red [Some 1, Some 1, Some 2, None])] ''tie'')
       = Some None"
proof
  fix red
  let ?st = "[(''tie'', column_statistics red [Some 1, Some 1, Some 2, Some 2]),
              (''one'', column_statistics red [Some 1, Some 1, Some 2, None])]"
  have st: "stats red other_raises mode_frame = Inr ?st"
    by (simp add: stats_defs stats_example_defs)
  have d: "distinct (labels mode_frame)"
    by (simp add: labels_def stats_example_defs)
  have one: "(''one'', Float64 [Some 1, Some 1, Some 2, None]) \<in> set (columns mode_frame)"
    by (simp add: stats_example_defs)
  have tie: "(''tie'', Int64 [1, 1, 2, 2]) \<in> set (columns mode_frame)"
    by (simp add: stats_example_defs)
  have n1: "\<not> isin_key_input ''one''" and n2: "\<not> isin_key_input ''tie''"
    by (simp_all add: isin_key_input_def)
  have v1: "numeric_values (Float64 [Some 1, Some 1, Some 2, None])
      = Some [Some 1, Some 1, Some 2, None]"
    by simp
  have v2: "numeric_values (Int64 [1, 1, 2, 2]) = Some [Some 1, Some 1, Some 2, Some 2]"
    by simp
  have s1: "strictly_most_frequent (dropna [Some 1, Some 1, Some 2, None]) 1"
    by (simp add: strictly_most_frequent_def)
  have s2: "tied_most_frequent (dropna [Some 1, Some 1, Some 2, Some 2])"
    by (simp add: tied_most_frequent_def)
  from stats_mode [OF st d one n1 v1, of 1] s1
  have a: "map_option stat_mode (map_of ?st ''one'') = Some (Some 1)" by blast
  from stats_mode [OF st d tie n2 v2] s2
  have b: "map_option stat_mode (map_of ?st ''tie'') = Some None" by blast
  from s1 have s1': "strictly_most_frequent [1, 1, 2] 1" by simp
  from s2 have s2': "tied_most_frequent [1, 1, 2, 2]" by simp
  from st s1' s2' a b
  show "stats red other_raises mode_frame = Inr ?st \<and>
     strictly_most_frequent [1, 1, 2] 1 \<and>
     tied_most_frequent [1, 1, 2, 2] \<and>
     map_option stat_mode (map_of ?st ''one'') = Some (Some 1) \<and>
     map_option stat_mode (map_of ?st ''tie'') = Some None"
    by blast
qed

subsection \<open>Columns without a value, frames without an identifier column\<close>

lemma column_statistics_no_value:
  "dropna vs = [] \<Longrightarrow> column_statistics red vs = nan_stats"
  by (simp add: column_statistics_def pd_mean_def pd_mode_def pd_min_def pd_max_def
      pd_std_def nan_stats_def)

text \<open>
  C6, as amended. The specification asks for an \<open>EmptyColumnError\<close>; the code has no such
  error. For a frame with the columns \<open>key\<close> and \<open>input\<close> whose other columns are
  numeric, a column without any cell present does not make the summarizer fail: the
  summarizer returns, and the statistics of that column are NaN for \<open>mean\<close>, \<open>min\<close>,
  \<open>max\<close> and \<open>std\<close> and null for \<open>mode\<close>.
\<close>

theorem stats_column_without_value:
  assumes "''key'' \<in> set (labels df)" and "''input'' \<in> set (labels df)"
    and "numeric_frame df" and "distinct (labels df)"
    and "(label, s) \<in> set (columns df)" and "\<not> isin_key_input label"
    and "numeric_values s = Some vs" and "dropna vs = []"
  shows "\<exists>st. stats red other df = Inr st \<and> map_of st label = Some nan_stats"
proof -
  from stats_returns [OF assms(1-3)] obtain st where st: "stats red other df = Inr st"
    by blast
  from stats_numeric_lookup [OF st assms(4-7)] column_statistics_no_value [OF assms(8)]
  have "map_of st label = Some nan_stats" by simp
  with st show ?thesis by blast
qed

theorem stats_column_without_value_witness:
  "''key'' \<in> set (labels all_nan_frame) \<and> ''input'' \<in> set (labels all_nan_frame) \<and>
   numeric_frame all_nan_frame \<and> distinct (labels all_nan_frame) \<and>
   dropna [None, None :: real option] = [] \<and>
   (\<exists>st. stats unused_reductions other_raises all_nan_frame = Inr st \<and> map_of st ''a'' = Some nan_stats)"
proof -
  have k: "''key'' \<in> set (labels all_nan_frame)"
    and i: "''input'' \<in> set (labels all_nan_frame)"
    and d: "distinct (labels all_nan_frame)"
    by (simp_all add: labels_def stats_example_defs)
  have f: "numeric_frame all_nan_frame"
    by (simp add: numeric_frame_def non_identifier_def isin_key_input_def stats_example_defs)
  have a: "(''a'', Float64 [None, None]) \<in> set (columns all_nan_frame)"
    by (simp add: stats_example_defs)
  have n: "\<not> isin_key_input ''a''"
    by (simp add: isin_key_input_def)
  have v: "numeric_values (Float64 [None, None]) = Some [None, None]"
    by simp
  have e: "dropna [None, None :: real option] = []"
    by simp
  from k i f d e stats_column_without_value [OF k i f d a n v e, of unused_reductions other_raises]
  show ?thesis by blast
qed

text \<open>
  The claim as the specification states it fails on a frame whose only data column has no
  cell present: the summarizer returns the statistics, all NaN or null.
\<close>

theorem stats_all_nan_counterexample:
  "stats unused_reductions other_raises all_nan_frame = Inr [(''a'', nan_stats)] \<and>
   stats unused_reductions other_raises all_nan_frame \<noteq> Inl EmptyColumnError"
  by (simp add: stats_defs stats_example_defs column_statistics_no_value)

text \<open>
  C10. For a frame that has no column \<open>key\<close> or no column \<open>input\<close> the summarizer fails
  (\<open>drop\<close> raises \<open>KeyError\<close>), whatever the other columns are.
\<close>

theorem stats_missing_identifier:
  assumes "''key'' \<notin> set (labels df) \<or> ''input'' \<notin> set (labels df)"
  shows "stats red other df = Inl KeyError"
  using assms by (auto simp: stats_eq)

theorem stats_missing_identifier_witness:
  "''key'' \<notin> set (labels no_key_frame) \<and>
   stats unused_reductions other_raises no_key_frame = Inl KeyError"
proof -
  have k: "''key'' \<notin> set (labels no_key_frame)"
    by (simp add: labels_def stats_example_defs)
  then have h: "''key'' \<notin> set (labels no_key_frame) \<or> ''input'' \<notin> set (labels no_key_frame)"
    by (rule disjI1)
  from k stats_missing_identifier [OF h, of unused_reductions other_raises] show ?thesis by blast
qed

section \<open>Properties of get_file_sizes\<close>

lemma np_true_divide_no_rows:
  "np_true_divide (real m / 1024) 0 = (if m = 0 then NaN else PosInf)"
  by (simp add: np_true_divide_def)

text \<open>
  C7, as amended. The specification asks for a division-by-zero error on a table without
  rows; the quotient is one of numpy floats and raises nothing. The size accounting returns
  for every pair of tables, and the per-row average of a table without rows is infinity
  when pandas accounts any byte to it, NaN when it accounts none.
\<close>

theorem get_file_sizes_no_rows:
  "\<exists>r. get_file_sizes memory_usage input_df output_df = Inr r \<and>
     (index_len input_df = 0 \<longrightarrow>
        avg_input_size r = (if memory_usage input_df = 0 then NaN else PosInf)) \<and>
     (index_len output_df = 0 \<longrightarrow>
        avg_output_size r = (if memory_usage output_df = 0 then NaN else PosInf))"
  by (simp add: get_file_sizes_def Let_def np_true_divide_no_rows)

theorem get_file_sizes_no_rows_witness:
  "index_len no_rows = 0 \<and>
   (\<exists>r. get_file_sizes (\<lambda>df. 132) no_rows one_float = Inr r \<and> avg_input_size r = PosInf)"
proof -
  have h: "index_len no_rows = 0"
    by (simp add: no_rows_def)
  from h get_file_sizes_no_rows [of "\<lambda>df. 132" no_rows one_float]
  show ?thesis by auto
qed

text \<open>
  The claim as the specification states it fails on two tables without rows (132 bytes is
  what pandas accounts to the index of an empty frame): a value is returned.
\<close>

theorem get_file_sizes_counterexample:
  "get_file_sizes (\<lambda>df. 132) no_rows no_rows
     = Inr \<lparr>input_size = 132 / 1024, output_size = 132 / 1024,
            avg_input_size = PosInf, avg_output_size = PosInf\<rparr> \<and>
   get_file_sizes (\<lambda>df. 132) no_rows no_rows \<noteq> Inl ZeroDivisionError"
  by (simp add: get_file_sizes_def Let_def np_true_divide_def no_rows_def)

section \<open>Properties of the profiling window\<close>

text \<open>
  C3, as amended. The specification asks for a \<open>NotStartedError\<close> from both queries of a
  tracker that was never started; the code has no such error. On such a tracker the
  elapsed time fails with \<open>TypeError\<close> (\<open>time_start\<close> is \<open>None\<close>), and
  \<open>get_peak_memory\<close> does not fail: it returns the traced peak minus 0, which is 0 when
  \<open>tracemalloc\<close> does not trace, and stops \<open>tracemalloc\<close>.
\<close>

theorem queries_before_start:
  "time_taken now RunTracker_init = Inl TypeError \<and>
   get_peak_memory RunTracker_init tm
     = Inr (int (snd (get_traced_memory tm)), tracemalloc_stop tm) \<and>
   get_peak_memory RunTracker_init tracemalloc_idle = Inr (0, tracemalloc_idle)"
  by (simp add: time_taken_def get_peak_memory_def RunTracker_init_def get_traced_memory_def
      tracemalloc_stop_def tracemalloc_idle_def)

theorem queries_before_start_witness:
  "time_taken 1000 RunTracker_init = Inl TypeError \<and>
   get_peak_memory RunTracker_init \<lparr>tracing = True, traced_current = 10, traced_peak = 50\<rparr>
     = Inr (50, tracemalloc_idle)"
  using queries_before_start [of 1000 "\<lparr>tracing = True, traced_current = 10, traced_peak = 50\<rparr>"]
  by (simp add: get_traced_memory_def tracemalloc_stop_def tracemalloc_idle_def)

text \<open>
  The claim as the specification states it fails on a fresh tracker: the peak memory is
  returned, and the error of the elapsed time is not \<open>NotStartedError\<close>.
\<close>

theorem queries_before_start_counterexample:
  "get_peak_memory RunTracker_init tracemalloc_idle = Inr (0, tracemalloc_idle) \<and>
   get_peak_memory RunTracker_init tracemalloc_idle \<noteq> Inl NotStartedError \<and>
   time_taken 1000 RunTracker_init \<noteq> Inl NotStartedError"
  by (simp add: time_taken_def get_peak_memory_def RunTracker_init_def get_traced_memory_def
      tracemalloc_stop_def tracemalloc_idle_def)

end
